theory Spec2Isabelle
  imports Main "HOL-Library.Sublist"
begin

section \<open>The answer record collected by the prompts\<close>

text \<open>
  \<^verbatim>\<open>interface PluginAnswers { name; type: 'ui' | 'middleware' | 'hybrid'; slots?; middlewarePoints?; typescript }\<close>.
  The two optional fields are \<open>None\<close> when the property is undefined.
\<close>

datatype plugin_type = Ui | Middleware | Hybrid

record PluginAnswers =
  name :: string
  type :: plugin_type
  slots :: "string list option"
  middlewarePoints :: "string list option"
  typescript :: bool

text \<open>The string literal a \<open>plugin_type\<close> stands for in the source.\<close>

fun type_literal :: "plugin_type \<Rightarrow> string" where
  "type_literal Ui = ''ui''"
| "type_literal Middleware = ''middleware''"
| "type_literal Hybrid = ''hybrid''"

text \<open>
  The \<open>validate\<close> function of the name question, \<^verbatim>\<open>input.match(/^[a-z0-9-]+$/)\<close>: one or more
  characters, each a lower-case letter, a digit or a dash.
\<close>

definition name_char :: "char \<Rightarrow> bool" where
  "name_char c = (c \<in> set ''abcdefghijklmnopqrstuvwxyz0123456789-'')"

definition validate :: "string \<Rightarrow> bool" where
  "validate input = (input \<noteq> [] \<and> list_all name_char input)"

text \<open>The \<open>when\<close> functions of the two checkbox questions.\<close>

definition when_slots :: "plugin_type \<Rightarrow> bool" where
  "when_slots t = (t \<noteq> Middleware)"

definition when_middlewarePoints :: "plugin_type \<Rightarrow> bool" where
  "when_middlewarePoints t = (t \<noteq> Ui)"

text \<open>
  The records the prompt sequence hands to \<open>createPluginFiles\<close>: the name passed \<open>validate\<close>,
  and a checkbox answer is defined exactly when its question was asked.
\<close>

definition valid_answers :: "PluginAnswers \<Rightarrow> bool" where
  "valid_answers answers =
     (validate (name answers) \<and>
      (slots answers \<noteq> None) = when_slots (type answers) \<and>
      (middlewarePoints answers \<noteq> None) = when_middlewarePoints (type answers))"

section \<open>Structured data, paths and file-system operations\<close>

text \<open>
  The object literals handed to \<open>fs.writeJSON\<close>. \<open>JUndefined\<close> is the value of a property
  whose initialiser evaluated to \<open>undefined\<close>.
\<close>

datatype json =
  JUndefined
| JBool bool
| JString string
| JArray "json list"
| JObject "(string \<times> json) list"

definition strings :: "string list \<Rightarrow> json" where
  "strings xs = JArray (map JString xs)"

definition optional_strings :: "string list option \<Rightarrow> json" where
  "optional_strings v = (case v of None \<Rightarrow> JUndefined | Some xs \<Rightarrow> strings xs)"

text \<open>
  The serialiser behind \<open>fs.writeJSON\<close> leaves out every property whose value is
  \<open>undefined\<close>; \<open>emitted_members\<close> are the properties of an object that reach the file.
\<close>

fun is_undefined :: "json \<Rightarrow> bool" where
  "is_undefined JUndefined = True"
| "is_undefined _ = False"

fun emitted_members :: "json \<Rightarrow> (string \<times> json) list" where
  "emitted_members (JObject ms) = filter (\<lambda>m. \<not> is_undefined (snd m)) ms"
| "emitted_members _ = []"

definition has_field :: "string \<Rightarrow> json \<Rightarrow> bool" where
  "has_field k j = (k \<in> set (map fst (emitted_members j)))"

definition field :: "string \<Rightarrow> json \<Rightarrow> json option" where
  "field k j = map_of (emitted_members j) k"

text \<open>
  A path is the list of its components; \<open>path.join\<close> appends components. (On components
  free of separators and dot segments, as validated names and the literals below are,
  \<open>path.join\<close> normalises nothing.)
\<close>

type_synonym path = "string list"

definition path_join :: "path \<Rightarrow> string list \<Rightarrow> path" where
  "path_join base segs = base @ segs"

datatype fs_op =
  EnsureDir path
| WriteJSON path json
| WriteFile path string

text \<open>
  An awaited call either completes or rejects; the program state it leaves behind is
  returned in both cases. \<open>andThen\<close> is the sequencing of two awaited statements in an
  \<open>async\<close> function: a rejection of the first skips the second and becomes the rejection
  of the whole.
\<close>

type_synonym ('e, 's) action = "'s \<Rightarrow> 'e option \<times> 's"

definition skip :: "('e, 's) action" where
  "skip s = (None, s)"

definition andThen :: "('e, 's) action \<Rightarrow> ('e, 's) action \<Rightarrow> ('e, 's) action" where
  "andThen m k s = (case m s of (None, s') \<Rightarrow> k s' | (Some e, s') \<Rightarrow> (Some e, s'))"

section \<open>The generated contents\<close>

definition manifest :: "PluginAnswers \<Rightarrow> json" where
  "manifest answers = JObject
     [(''id'', JString (name answers)),
      (''version'', JString ''1.0.0''),
      (''type'', JString (type_literal (type answers))),
      (''entryPoint'', JString ''dist/index.js''),
      (''permissions'', JArray []),
      (''slots'', optional_strings (slots answers)),
      (''middlewarePoints'', optional_strings (middlewarePoints answers))]"

definition packJs :: string where
  \<open>packJs =
     ''\<newline>'' @
     ''const AdmZip = require('adm-zip');\<newline>'' @
     ''const path = require('path');\<newline>'' @
     ''const fs = require('fs');\<newline>'' @
     ''const pkg = require('../package.json');\<newline>'' @
     ''\<newline>'' @
     ''async function packPlugin() {\<newline>'' @
     ''    const zip = new AdmZip();\<newline>'' @
     ''    const manifest = require('../plugin.json');\<newline>'' @
     ''    const outputFile = `${ pkg.name }-${ pkg.version }.zip`;\<newline>'' @
     ''\<newline>'' @
     ''    // Add files specified in package.json 'files' array\<newline>'' @
     ''    for (const file of pkg.files) {\<newline>'' @
     ''        if (fs.existsSync(file)) {\<newline>'' @
     ''            zip.addLocalFile(file);\<newline>'' @
     ''        } else {\<newline>'' @
     ''            console.warn(`Warning: File ${ file } specified in package.json 'files' does not exist`);\<newline>'' @
     ''        }\<newline>'' @
     ''    }\<newline>'' @
     ''\<newline>'' @
     ''    // Create the zip file\<newline>'' @
     ''    zip.writeZip(outputFile);\<newline>'' @
     ''    console.log(`Plugin packed successfully: ${ outputFile }`);\<newline>'' @
     ''}\<newline>'' @
     ''\<newline>'' @
     ''packPlugin().catch(console.error);\<newline>''\<close>

definition readme :: "PluginAnswers \<Rightarrow> string" where
  "readme answers = ''# '' @ name answers @ ''\<newline>\<newline>A plugin for bolt.diy''"

definition packageJson :: "PluginAnswers \<Rightarrow> json" where
  \<open>packageJson answers = JObject
     [(''name'', JString (name answers)),
      (''version'', JString ''1.0.0''),
      (''main'', JString ''dist/index.js''),
      (''scripts'', JObject
        [(''build'', JString (if typescript answers
            then ''esbuild src/index.tsx --bundle --external:react --external:react-dom --outfile=dist/index.js --platform=browser --format=esm --minify''
            else ''esbuild src/index.jsx --bundle --external:react --external:react-dom --outfile=dist/index.js --platform=browser --format=esm --minify'')),
         (''watch'', JString (if typescript answers
            then ''esbuild src/index.tsx --bundle --external:react --external:react-dom --outfile=dist/index.js --platform=browser --format=esm --watch''
            else ''esbuild src/index.jsx --bundle --external:react --external:react-dom --outfile=dist/index.js --platform=browser --format=esm --watch'')),
         (''type-check'', JString (if typescript answers
            then ''tsc --noEmit'' else ''echo "No type checking needed"'')),
         (''prepack'', JString ''npm run build''),
         (''pack'', JString ''node scripts/pack.js'')]),
      (''dependencies'', JObject
        [(''react'', JString ''^18.2.0''),
         (''react-dom'', JString ''^18.2.0'')]),
      (''devDependencies'', JObject
        ([(''esbuild'', JString ''^0.19.0''),
          (''adm-zip'', JString ''^0.5.10'')] @
         (if typescript answers
          then [(''typescript'', JString ''^5.0.0''),
                (''@types/node'', JString ''^20.0.0''),
                (''@types/react'', JString ''^18.2.0''),
                (''@types/react-dom'', JString ''^18.2.0'')]
          else []))),
      (''files'', strings [''dist/index.js'', ''plugin.json'', ''README.md''])]\<close>

definition tsConfig :: json where
  "tsConfig = JObject
     [(''compilerOptions'', JObject
        [(''target'', JString ''es2020''),
         (''module'', JString ''esnext''),
         (''strict'', JBool True),
         (''esModuleInterop'', JBool True),
         (''skipLibCheck'', JBool True),
         (''forceConsistentCasingInFileNames'', JBool True),
         (''outDir'', JString ''./dist''),
         (''declaration'', JBool True),
         (''jsx'', JString ''react''),
         (''moduleResolution'', JString ''node''),
         (''lib'', strings [''dom'', ''dom.iterable'', ''esnext'']),
         (''noEmit'', JBool True)]),
      (''include'', strings [''src'']),
      (''exclude'', strings [''node_modules'', ''dist''])]"

text \<open>
  \<open>generatePluginTypes\<close>. The constant \<open>pluginTypeDefs\<close> is imported from
  \<open>./plugin-lib-types\<close> and is a parameter here. \<open>pluginContractTypes\<close> is the template
  literal the typed branch appends.
\<close>

definition pluginContractTypes :: string where
  \<open>pluginContractTypes =
     ''\<newline>'' @
     ''export interface PluginContext{\<newline>'' @
     ''    api: CoreAPI;\<newline>'' @
     ''}\<newline>'' @
     ''\<newline>'' @
     ''export interface UIPluginContext {\<newline>'' @
     ''    slot: string;\<newline>'' @
     ''    api: CoreAPI;\<newline>'' @
     ''}\<newline>'' @
     ''\<newline>'' @
     ''export interface MiddlewareContext {\<newline>'' @
     ''    point: string;\<newline>'' @
     ''    data: any;\<newline>'' @
     ''    api: CoreAPI;\<newline>'' @
     ''    next: (data: any) => Promise<any>;\<newline>'' @
     ''}\<newline>'' @
     ''\<newline>'' @
     ''export type UIPluginMount = (context: UIPluginContext) => Promise<ReactElement>; \<newline>'' @
     ''export type MiddlewareProcess = (context: MiddlewareContext) => Promise<any>;\<newline>'' @
     ''\<newline>'' @
     ''export interface UIPlugin {\<newline>'' @
     ''    mount: UIPluginMount;\<newline>'' @
     ''    unmount?: () => Promise<void>;\<newline>'' @
     ''}\<newline>'' @
     ''\<newline>'' @
     ''export interface MiddlewarePlugin {\<newline>'' @
     ''    process: MiddlewareProcess;\<newline>'' @
     ''}\<newline>'' @
     ''\<newline>'' @
     ''export interface HybridPlugin extends UIPlugin, MiddlewarePlugin {}\<newline>'' @
     ''\<newline>'' @
     ''export type Plugin = UIPlugin | MiddlewarePlugin | HybridPlugin;\<newline>'' @
     ''\<newline>'' @
     ''export type CreatePlugin = (context: PluginContext) => Plugin;\<newline>'' @
     ''\<newline>''\<close>

definition generatePluginTypes :: "string \<Rightarrow> PluginAnswers \<Rightarrow> string" where
  "generatePluginTypes pluginTypeDefs answers =
     (let source = pluginTypeDefs
      in if typescript answers then source @ pluginContractTypes else source)"

definition generatePluginSource :: "PluginAnswers \<Rightarrow> string" where
  \<open>generatePluginSource answers =
     (let imports =
        (if typescript answers
         then ''import React, { ReactElement } from 'react';\<newline>'' @
              ''import { PluginContext, UIPluginContext, MiddlewareContext, CreatePlugin } from './types';''
         else ''import React from 'react';'')
      in imports @ ''\<newline>'' @
         ''\<newline>'' @
         ''const createPlugin'' @ (if typescript answers then '': CreatePlugin'' else []) @
         '' = (options'' @ (if typescript answers then '': PluginContext'' else []) @ '') => {\<newline>'' @
         ''  return {\<newline>'' @
         ''    '' @
         (if type answers \<noteq> Middleware
          then ''\<newline>'' @
               ''    mount: async (context'' @ (if typescript answers then '': UIPluginContext'' else []) @
               '')'' @ (if typescript answers then '': Promise<ReactElement>'' else []) @ '' => {\<newline>'' @
               ''      return (\<newline>'' @
               ''        <div className="p-4">\<newline>'' @
               ''          <h2 className="text-lg font-bold">Plugin UI</h2>\<newline>'' @
               ''          <p>This is a sample plugin UI for slot: {context.slot}</p>\<newline>'' @
               ''        </div>\<newline>'' @
               ''      );\<newline>'' @
               ''    },\<newline>'' @
               ''    unmount: async (slot'' @ (if typescript answers then '': string'' else []) @ '') => {\<newline>'' @
               ''      // Cleanup code\<newline>'' @
               ''    },\<newline>'' @
               ''    ''
          else []) @ ''\<newline>'' @
         ''    '' @
         (if type answers \<noteq> Ui
          then ''\<newline>'' @
               ''    process: async (context'' @ (if typescript answers then '': MiddlewareContext'' else []) @ '') => {\<newline>'' @
               ''      const { data, next } = context;\<newline>'' @
               ''      // Modify data here\<newline>'' @
               ''      return next(data);\<newline>'' @
               ''    },''
          else []) @ ''\<newline>'' @
         ''  };\<newline>'' @
         ''}\<newline>'' @
         ''export default createPlugin;'')\<close>

section \<open>Scaffolding\<close>

text \<open>
  \<open>createPluginFiles\<close>, statement by statement. \<open>fs\<close> is the file-system module (every call
  is awaited), \<open>cwd\<close> is \<open>process.cwd()\<close>. The console summary that follows the last write
  is not part of the model.
\<close>

definition createPluginFiles ::
  "(fs_op \<Rightarrow> ('e, 's) action) \<Rightarrow> path \<Rightarrow> string \<Rightarrow> PluginAnswers \<Rightarrow> ('e, 's) action" where
  "createPluginFiles fs cwd pluginTypeDefs answers =
     (let pluginDir = path_join cwd [name answers] in
      andThen (fs (EnsureDir pluginDir))
     (andThen (fs (EnsureDir (path_join pluginDir [''src''])))
     (andThen (fs (WriteJSON (path_join pluginDir [''plugin.json'']) (manifest answers)))
     (andThen (fs (EnsureDir (path_join pluginDir [''scripts''])))
     (andThen (fs (WriteFile (path_join pluginDir [''scripts'', ''pack.js'']) packJs))
     (andThen (fs (WriteFile (path_join pluginDir [''README.md'']) (readme answers)))
     (andThen (fs (WriteJSON (path_join pluginDir [''package.json'']) (packageJson answers)))
     (andThen (if typescript answers
               then fs (WriteJSON (path_join pluginDir [''tsconfig.json'']) tsConfig)
               else skip)
     (andThen (if typescript answers
               then fs (WriteFile (path_join pluginDir [''src'', ''types.ts''])
                          (generatePluginTypes pluginTypeDefs answers))
               else skip)
              (fs (WriteFile
                     (path_join pluginDir
                        [''src'', ''index.'' @ (if typescript answers then ''tsx'' else ''jsx'')])
                     (generatePluginSource answers))))))))))))"

section \<open>The ordered operation list and its execution\<close>

text \<open>
  No statement of \<open>createPluginFiles\<close> reads what an earlier file-system call returned, so
  the operations it attempts form a list fixed by the answers (\<open>plan\<close>), executed in order
  up to the first rejection (\<open>run\<close>).
\<close>

definition plan :: "path \<Rightarrow> string \<Rightarrow> PluginAnswers \<Rightarrow> fs_op list" where
  "plan cwd pluginTypeDefs answers =
     (let pluginDir = path_join cwd [name answers] in
      [EnsureDir pluginDir,
       EnsureDir (path_join pluginDir [''src'']),
       WriteJSON (path_join pluginDir [''plugin.json'']) (manifest answers),
       EnsureDir (path_join pluginDir [''scripts'']),
       WriteFile (path_join pluginDir [''scripts'', ''pack.js'']) packJs,
       WriteFile (path_join pluginDir [''README.md'']) (readme answers),
       WriteJSON (path_join pluginDir [''package.json'']) (packageJson answers)] @
      (if typescript answers
       then [WriteJSON (path_join pluginDir [''tsconfig.json'']) tsConfig] else []) @
      (if typescript answers
       then [WriteFile (path_join pluginDir [''src'', ''types.ts''])
               (generatePluginTypes pluginTypeDefs answers)] else []) @
      [WriteFile
         (path_join pluginDir [''src'', ''index.'' @ (if typescript answers then ''tsx'' else ''jsx'')])
         (generatePluginSource answers)])"

fun run :: "(fs_op \<Rightarrow> ('e, 's) action) \<Rightarrow> fs_op list \<Rightarrow> ('e, 's) action" where
  "run fs [] = skip"
| "run fs (op # ops) = andThen (fs op) (run fs ops)"

text \<open>
  A file system observed through the list of operations it has completed, oldest first.
  \<open>fails\<close> injects failures: an operation it maps to \<open>Some e\<close> rejects with \<open>e\<close> and
  completes nothing.
\<close>

definition perform :: "(fs_op \<Rightarrow> 'e option) \<Rightarrow> fs_op \<Rightarrow> ('e, fs_op list) action" where
  "perform fails op completed =
     (case fails op of
        Some e \<Rightarrow> (Some e, completed)
      | None \<Rightarrow> (None, completed @ [op]))"

text \<open>
  An artifact is a file write, as the pair of its path relative to the plugin directory
  and its content.
\<close>

datatype content = Json json | Text string

definition relative :: "path \<Rightarrow> path \<Rightarrow> path" where
  "relative root p = drop (length root) p"

fun artifact :: "path \<Rightarrow> fs_op \<Rightarrow> (path \<times> content) option" where
  "artifact root (EnsureDir p) = None"
| "artifact root (WriteJSON p j) = Some (relative root p, Json j)"
| "artifact root (WriteFile p s) = Some (relative root p, Text s)"

definition artifacts :: "path \<Rightarrow> fs_op list \<Rightarrow> (path \<times> content) list" where
  "artifacts root ops = List.map_filter (artifact root) ops"

definition generated :: "path \<Rightarrow> string \<Rightarrow> PluginAnswers \<Rightarrow> (path \<times> content) list" where
  "generated cwd pluginTypeDefs answers =
     artifacts (path_join cwd [name answers]) (plan cwd pluginTypeDefs answers)"

text \<open>An entry source exposes capability \<open>k\<close> when the returned object literal has a property \<open>k\<close>.\<close>

definition exposes :: "string \<Rightarrow> string \<Rightarrow> bool" where
  "exposes k source = sublist (''\<newline>    '' @ k @ '': async ('') source"

text \<open>The command the emitted build descriptor gives for the script \<open>k\<close>.\<close>

definition script :: "string \<Rightarrow> PluginAnswers \<Rightarrow> json option" where
  "script k answers =
     (case field ''scripts'' (packageJson answers) of
        Some scripts \<Rightarrow> field k scripts
      | None \<Rightarrow> None)"

text \<open>
  A failure injected at one path: the operation on \<open>p\<close> is rejected with \<open>EACCES\<close>, every
  other operation completes.
\<close>

fun path_of :: "fs_op \<Rightarrow> path" where
  "path_of (EnsureDir p) = p"
| "path_of (WriteJSON p j) = p"
| "path_of (WriteFile p s) = p"

definition deny :: "path \<Rightarrow> fs_op \<Rightarrow> string option" where
  "deny p op = (if path_of op = p then Some ''EACCES'' else None)"

text \<open>Two answer records used as concrete inputs below.\<close>

definition my_plugin :: PluginAnswers where
  "my_plugin = \<lparr>name = ''my-plugin'', type = Ui, slots = Some [''app-header''],
                 middlewarePoints = None, typescript = True\<rparr>"

definition my_mw :: PluginAnswers where
  "my_mw = \<lparr>name = ''my-mw'', type = Middleware, slots = None,
             middlewarePoints = Some [''beforeUserInput''], typescript = False\<rparr>"

section \<open>Execution follows the operation list\<close>

lemma createPluginFiles_run:
  "createPluginFiles fs cwd pluginTypeDefs answers = run fs (plan cwd pluginTypeDefs answers)"
proof -
  have r: "andThen m skip = m" for m :: "('e, 's) action"
    by (rule ext) (simp add: andThen_def skip_def split: prod.splits option.splits)
  have l: "andThen skip m = m" for m :: "('e, 's) action"
    by (rule ext) (simp add: andThen_def skip_def)
  show ?thesis
    by (simp add: createPluginFiles_def plan_def Let_def r l)
qed

lemma run_append:
  "run fs pre s = (None, s') \<Longrightarrow> run fs (pre @ ops) s = run fs ops s'"
proof (induction pre arbitrary: s)
  case Nil
  then show ?case by (simp add: skip_def)
next
  case (Cons p pre)
  then show ?case
    by (auto simp: andThen_def split: prod.splits option.splits)
qed

lemma run_perform_completes:
  "\<forall>p\<in>set ops. fails p = None \<Longrightarrow>
   run (perform fails) ops completed = (None, completed @ ops)"
proof (induction ops arbitrary: completed)
  case Nil
  then show ?case by (simp add: skip_def)
next
  case (Cons p ops)
  then show ?case by (simp add: andThen_def perform_def)
qed

lemma run_perform_rejects:
  assumes "\<forall>p\<in>set pre. fails p = None" and "fails op = Some e"
  shows "run (perform fails) (pre @ op # post) completed = (Some e, completed @ pre)"
proof -
  have "run (perform fails) pre completed = (None, completed @ pre)"
    using assms(1) by (rule run_perform_completes)
  then have "run (perform fails) (pre @ op # post) completed =
             run (perform fails) (op # post) (completed @ pre)"
    by (rule run_append)
  also have "\<dots> = (Some e, completed @ pre)"
    using assms(2) by (simp add: andThen_def perform_def)
  finally show ?thesis .
qed

section \<open>The generated artifacts\<close>

lemma artifacts_append: "artifacts root (xs @ ys) = artifacts root xs @ artifacts root ys"
  by (simp add: artifacts_def List.map_filter_def)

lemma generated_eq:
  "generated cwd T a =
     [([''plugin.json''], Json (manifest a)),
      ([''scripts'', ''pack.js''], Text packJs),
      ([''README.md''], Text (readme a)),
      ([''package.json''], Json (packageJson a))] @
     (if typescript a
      then [([''tsconfig.json''], Json tsConfig),
            ([''src'', ''types.ts''], Text (generatePluginTypes T a))]
      else []) @
     [([''src'', ''index.'' @ (if typescript a then ''tsx'' else ''jsx'')],
       Text (generatePluginSource a))]"
  by (simp add: generated_def artifacts_def plan_def path_join_def relative_def
      List.map_filter_simps Let_def)

lemma valid_my_mw: "valid_answers my_mw"
  by (simp add: valid_answers_def my_mw_def validate_def name_char_def
      when_slots_def when_middlewarePoints_def)

section \<open>Planning is a function of the answers alone\<close>

text \<open>
  C1. The (relative path, content) pairs of the generated artifacts depend on the answer
  record only: they are the same whatever the working directory, and a run in which every
  file-system call completes writes exactly these pairs, in order.
\<close>

theorem generated_independent_of_environment:
  "generated cwd T a = generated cwd' T a \<and>
   artifacts (path_join cwd [name a])
     (snd (createPluginFiles (perform (\<lambda>_. None::'e option)) cwd T a [])) = generated cwd' T a"
proof -
  have "run (perform (\<lambda>_. None::'e option)) (plan cwd T a) [] = (None, [] @ plan cwd T a)"
    by (rule run_perform_completes) simp
  then have "snd (createPluginFiles (perform (\<lambda>_. None::'e option)) cwd T a []) = plan cwd T a"
    by (simp add: createPluginFiles_run)
  then have "artifacts (path_join cwd [name a])
      (snd (createPluginFiles (perform (\<lambda>_. None::'e option)) cwd T a [])) = generated cwd T a"
    by (simp add: generated_def)
  moreover have "generated cwd T a = generated cwd' T a"
    by (simp only: generated_eq)
  ultimately show ?thesis by simp
qed

section \<open>The manifest\<close>

text \<open>
  C2. For a valid answer record the emitted manifest (the content of \<open>plugin.json\<close>) has a
  \<open>slots\<close> field exactly when the type is not middleware, and a \<open>middlewarePoints\<close> field
  exactly when the type is not ui.
\<close>

theorem manifest_optional_fields:
  assumes "valid_answers a"
  shows "map_of (generated cwd T a) [''plugin.json''] = Some (Json (manifest a)) \<and>
         has_field ''slots'' (manifest a) = (type a \<noteq> Middleware) \<and>
         has_field ''middlewarePoints'' (manifest a) = (type a \<noteq> Ui)"
  using assms
  by (auto simp: valid_answers_def generated_eq manifest_def has_field_def when_slots_def
      when_middlewarePoints_def optional_strings_def strings_def split: option.splits)

theorem manifest_optional_fields_witness:
  "valid_answers my_mw \<and>
   map_of (generated [''home''] [] my_mw) [''plugin.json''] = Some (Json (manifest my_mw)) \<and>
   \<not> has_field ''slots'' (manifest my_mw) \<and>
   has_field ''middlewarePoints'' (manifest my_mw)"
  using manifest_optional_fields [OF valid_my_mw, of "[''home'']" "[]"] valid_my_mw
  by (simp add: my_mw_def)

section \<open>The packaging script\<close>

text \<open>
  C5. The content written to \<open>scripts/pack.js\<close> is the same fixed text for any two answer
  records (and any working directory and shared type definitions).
\<close>

theorem pack_script_content_fixed:
  "map_of (generated cwd T a) [''scripts'', ''pack.js''] = Some (Text packJs) \<and>
   map_of (generated cwd T a) [''scripts'', ''pack.js''] =
   map_of (generated cwd' T' b) [''scripts'', ''pack.js'']"
  by (simp add: generated_eq)

section \<open>The example scenario\<close>

text \<open>
  C7. For name \<open>my-plugin\<close>, type ui, slots \<open>app-header\<close>, TypeScript chosen: seven files are
  written, among them \<open>src/types.ts\<close> and \<open>src/index.tsx\<close>; the manifest has
  \<open>slots = ["app-header"]\<close> and no \<open>middlewarePoints\<close>; the build script is the one for
  \<open>src/index.tsx\<close>.
\<close>

theorem my_plugin_scenario:
  \<open>length (generated cwd T my_plugin) = 7 \<and>
   [''src'', ''types.ts''] \<in> set (map fst (generated cwd T my_plugin)) \<and>
   [''src'', ''index.tsx''] \<in> set (map fst (generated cwd T my_plugin)) \<and>
   map_of (generated cwd T my_plugin) [''plugin.json''] = Some (Json (manifest my_plugin)) \<and>
   field ''slots'' (manifest my_plugin) = Some (JArray [JString ''app-header'']) \<and>
   \<not> has_field ''middlewarePoints'' (manifest my_plugin) \<and>
   script ''build'' my_plugin = Some (JString
     ''esbuild src/index.tsx --bundle --external:react --external:react-dom --outfile=dist/index.js --platform=browser --format=esm --minify'')\<close>
  by (simp add: generated_eq my_plugin_def manifest_def field_def has_field_def
      optional_strings_def strings_def script_def packageJson_def)

section \<open>The entry source file\<close>

lemma source_ui:
  assumes "type a = Ui"
  shows "exposes ''mount'' (generatePluginSource a) \<and>
         exposes ''unmount'' (generatePluginSource a) \<and>
         \<not> exposes ''process'' (generatePluginSource a) \<and>
         \<not> sublist ''process'' (generatePluginSource a)"
  using assms
  by (cases "typescript a")
    (simp_all add: generatePluginSource_def exposes_def sublist_code(3))

lemma source_middleware:
  assumes "type a = Middleware"
  shows "exposes ''process'' (generatePluginSource a) \<and>
         \<not> exposes ''mount'' (generatePluginSource a) \<and>
         \<not> exposes ''unmount'' (generatePluginSource a) \<and>
         \<not> sublist ''mount'' (generatePluginSource a)"
  using assms
  by (cases "typescript a")
    (simp_all add: generatePluginSource_def exposes_def sublist_code(3))

lemma source_hybrid:
  assumes "type a = Hybrid"
  shows "exposes ''mount'' (generatePluginSource a) \<and>
         exposes ''unmount'' (generatePluginSource a) \<and>
         exposes ''process'' (generatePluginSource a)"
  using assms
  by (cases "typescript a")
    (simp_all add: generatePluginSource_def exposes_def sublist_code(3))

lemma entry_artifact:
  "map_of (generated cwd T a) [''src'', ''index.'' @ (if typescript a then ''tsx'' else ''jsx'')] =
   Some (Text (generatePluginSource a))"
  by (simp add: generated_eq)

text \<open>
  C3. The entry source (the content of \<open>src/index.tsx\<close> or \<open>src/index.jsx\<close>) exposes exactly
  the capabilities of the plugin type: ui gives \<open>mount\<close> and \<open>unmount\<close> and no \<open>process\<close> (the
  word does not occur at all); middleware gives \<open>process\<close> and neither \<open>mount\<close> nor
  \<open>unmount\<close> (the word \<open>mount\<close> does not occur at all); hybrid gives all three.
\<close>

theorem entry_source_capabilities:
  "map_of (generated cwd T a) [''src'', ''index.'' @ (if typescript a then ''tsx'' else ''jsx'')] =
     Some (Text (generatePluginSource a)) \<and>
   (type a = Ui \<longrightarrow>
      exposes ''mount'' (generatePluginSource a) \<and>
      exposes ''unmount'' (generatePluginSource a) \<and>
      \<not> exposes ''process'' (generatePluginSource a) \<and>
      \<not> sublist ''process'' (generatePluginSource a)) \<and>
   (type a = Middleware \<longrightarrow>
      exposes ''process'' (generatePluginSource a) \<and>
      \<not> exposes ''mount'' (generatePluginSource a) \<and>
      \<not> exposes ''unmount'' (generatePluginSource a) \<and>
      \<not> sublist ''mount'' (generatePluginSource a)) \<and>
   (type a = Hybrid \<longrightarrow>
      exposes ''mount'' (generatePluginSource a) \<and>
      exposes ''unmount'' (generatePluginSource a) \<and>
      exposes ''process'' (generatePluginSource a))"
  using entry_artifact [of cwd T a] source_ui [of a] source_middleware [of a] source_hybrid [of a]
  by blast

theorem entry_source_capabilities_witness:
  "type my_mw = Middleware \<and>
   map_of (generated [''home''] [] my_mw) [''src'', ''index.jsx''] =
     Some (Text (generatePluginSource my_mw)) \<and>
   exposes ''process'' (generatePluginSource my_mw) \<and>
   \<not> exposes ''mount'' (generatePluginSource my_mw) \<and>
   \<not> exposes ''unmount'' (generatePluginSource my_mw)"
proof -
  have t: "type my_mw = Middleware" and u: "\<not> typescript my_mw"
    by (simp_all add: my_mw_def)
  from u have "''index.'' @ (if typescript my_mw then ''tsx'' else ''jsx'') = ''index.jsx''"
    by simp
  with entry_source_capabilities [of "[''home'']" "[]" my_mw] t show ?thesis
    by simp
qed

section \<open>Typed and untyped path sets\<close>

lemma paths_eq:
  "map fst (generated cwd T a) =
     [[''plugin.json''], [''scripts'', ''pack.js''], [''README.md''], [''package.json'']] @
     (if typescript a
      then [[''tsconfig.json''], [''src'', ''types.ts''], [''src'', ''index.tsx'']]
      else [[''src'', ''index.jsx'']])"
  by (simp add: generated_eq)

lemma untyped_rest:
  "set (map fst (generated cwd T (a\<lparr>typescript := False\<rparr>))) - {[''src'', ''index.jsx'']} =
   {[''plugin.json''], [''scripts'', ''pack.js''], [''README.md''], [''package.json'']}"
  unfolding paths_eq by (simp add: insert_Diff_if)

lemma typed_paths:
  "set (map fst (generated cwd T (a\<lparr>typescript := True\<rparr>))) =
   {[''plugin.json''], [''scripts'', ''pack.js''], [''README.md''], [''package.json''],
    [''tsconfig.json''], [''src'', ''types.ts''], [''src'', ''index.tsx'']}"
  unfolding paths_eq by simp

lemma seven_split: "{a, b, c, d, e, f, g} = {a, b, c, d} \<union> {e, f, g}"
  by auto

lemma psubset_by_element: "x \<in> B \<Longrightarrow> x \<notin> A \<Longrightarrow> A \<subseteq> B \<Longrightarrow> A \<subset> B"
  by blast

text \<open>
  C4 as stated fails: the untyped run writes \<open>src/index.jsx\<close>, which the typed run of the same
  answers does not write (it writes \<open>src/index.tsx\<close> instead).
\<close>

theorem typed_paths_not_superset:
  "[''src'', ''index.jsx''] \<in> set (map fst (generated [''home''] [] (my_plugin\<lparr>typescript := False\<rparr>))) \<and>
   [''src'', ''index.jsx''] \<notin> set (map fst (generated [''home''] [] (my_plugin\<lparr>typescript := True\<rparr>))) \<and>
   \<not> set (map fst (generated [''home''] [] (my_plugin\<lparr>typescript := False\<rparr>)))
       \<subseteq> set (map fst (generated [''home''] [] (my_plugin\<lparr>typescript := True\<rparr>)))"
  unfolding paths_eq by simp

text \<open>
  C4, amended. Apart from the entry file, whose extension changes, the paths of the typed run
  are a strict superset of those of the untyped run: the typed paths are the untyped paths
  without \<open>src/index.jsx\<close>, plus \<open>tsconfig.json\<close>, \<open>src/types.ts\<close> and \<open>src/index.tsx\<close>.
\<close>

theorem typed_paths_superset_apart_from_entry:
  "set (map fst (generated cwd T (a\<lparr>typescript := True\<rparr>))) =
     (set (map fst (generated cwd T (a\<lparr>typescript := False\<rparr>))) - {[''src'', ''index.jsx'']}) \<union>
     {[''tsconfig.json''], [''src'', ''types.ts''], [''src'', ''index.tsx'']} \<and>
   set (map fst (generated cwd T (a\<lparr>typescript := False\<rparr>))) - {[''src'', ''index.jsx'']}
     \<subset> set (map fst (generated cwd T (a\<lparr>typescript := True\<rparr>)))"
proof -
  let ?U = "set (map fst (generated cwd T (a\<lparr>typescript := False\<rparr>))) - {[''src'', ''index.jsx'']}"
  let ?T = "set (map fst (generated cwd T (a\<lparr>typescript := True\<rparr>)))"
  have eq: "?T = ?U \<union> {[''tsconfig.json''], [''src'', ''types.ts''], [''src'', ''index.tsx'']}"
    unfolding untyped_rest typed_paths by (rule seven_split)
  have sub: "?U \<subseteq> ?T" by (subst eq) (rule Un_upper1)
  have inT: "[''tsconfig.json''] \<in> ?T" unfolding typed_paths by simp
  have outU: "[''tsconfig.json''] \<notin> ?U" unfolding untyped_rest by simp
  have "?U \<subset> ?T" by (rule psubset_by_element [OF inT outU sub])
  with eq show ?thesis by (rule conjI)
qed

section \<open>The build and watch commands\<close>

text \<open>
  C6 as stated fails in its last part: the watch command is not the build command with a
  flag added. The build command ends in \<open>--minify\<close>, which the watch command does not
  contain, so the build command is not even a subsequence of the watch command.
\<close>

theorem watch_is_not_build_plus_flag:
  \<open>script ''build'' my_plugin = Some (JString
     ''esbuild src/index.tsx --bundle --external:react --external:react-dom --outfile=dist/index.js --platform=browser --format=esm --minify'') \<and>
   script ''watch'' my_plugin = Some (JString
     ''esbuild src/index.tsx --bundle --external:react --external:react-dom --outfile=dist/index.js --platform=browser --format=esm --watch'') \<and>
   \<not> subseq
     ''esbuild src/index.tsx --bundle --external:react --external:react-dom --outfile=dist/index.js --platform=browser --format=esm --minify''
     ''esbuild src/index.tsx --bundle --external:react --external:react-dom --outfile=dist/index.js --platform=browser --format=esm --watch''\<close>
  by (simp add: my_plugin_def script_def packageJson_def field_def list_emb_code)

text \<open>
  C6, amended. The build and watch commands are fixed by \<open>typescript\<close> alone; the two typing
  modes differ only in the extension of the source file (\<open>tsx\<close> or \<open>jsx\<close>); within a mode
  the two commands share everything up to the last flag, which is \<open>--minify\<close> for build
  and \<open>--watch\<close> for watch.
\<close>

theorem build_and_watch_commands:
  \<open>script ''build'' a = Some (JString
     (''esbuild src/index.'' @ (if typescript a then ''tsx'' else ''jsx'') @
      '' --bundle --external:react --external:react-dom --outfile=dist/index.js --platform=browser --format=esm'' @
      '' --minify'')) \<and>
   script ''watch'' a = Some (JString
     (''esbuild src/index.'' @ (if typescript a then ''tsx'' else ''jsx'') @
      '' --bundle --external:react --external:react-dom --outfile=dist/index.js --platform=browser --format=esm'' @
      '' --watch''))\<close>
  by (simp add: script_def packageJson_def field_def)

section \<open>Failing writes\<close>

text \<open>
  C8. Operations are attempted in the order of the list. If an operation is rejected and
  all operations before it completed, the run is rejected with that operation's error, the
  completed operations are exactly the earlier ones (nothing is undone, nothing later is
  attempted), and the artifacts written are exactly the generated artifacts that precede
  the failing one.
\<close>

theorem createPluginFiles_fail_fast:
  assumes "plan cwd T a = pre @ op # post"
    and "\<forall>p\<in>set pre. fails p = None"
    and "fails op = Some e"
  shows "createPluginFiles (perform fails) cwd T a completed = (Some e, completed @ pre) \<and>
         artifacts (path_join cwd [name a]) (completed @ pre) =
           artifacts (path_join cwd [name a]) completed @
           take (length (artifacts (path_join cwd [name a]) pre)) (generated cwd T a)"
proof -
  have "createPluginFiles (perform fails) cwd T a completed = (Some e, completed @ pre)"
    using run_perform_rejects [OF assms(2,3)] by (simp add: createPluginFiles_run assms(1))
  moreover have "generated cwd T a =
      artifacts (path_join cwd [name a]) pre @ artifacts (path_join cwd [name a]) (op # post)"
    by (simp add: generated_def assms(1) artifacts_append)
  ultimately show ?thesis by (simp add: artifacts_append)
qed

theorem createPluginFiles_fail_fast_witness:
  "createPluginFiles (perform (deny [''home'', ''my-plugin'', ''README.md''])) [''home''] [] my_plugin [] =
     (Some ''EACCES'',
      [EnsureDir [''home'', ''my-plugin''],
       EnsureDir [''home'', ''my-plugin'', ''src''],
       WriteJSON [''home'', ''my-plugin'', ''plugin.json''] (manifest my_plugin),
       EnsureDir [''home'', ''my-plugin'', ''scripts''],
       WriteFile [''home'', ''my-plugin'', ''scripts'', ''pack.js''] packJs]) \<and>
   take 2 (generated [''home''] [] my_plugin) =
     [([''plugin.json''], Json (manifest my_plugin)), ([''scripts'', ''pack.js''], Text packJs)]"
proof -
  let ?pre = "[EnsureDir [''home'', ''my-plugin''],
       EnsureDir [''home'', ''my-plugin'', ''src''],
       WriteJSON [''home'', ''my-plugin'', ''plugin.json''] (manifest my_plugin),
       EnsureDir [''home'', ''my-plugin'', ''scripts''],
       WriteFile [''home'', ''my-plugin'', ''scripts'', ''pack.js''] packJs]"
  let ?op = "WriteFile [''home'', ''my-plugin'', ''README.md''] (readme my_plugin)"
  let ?post = "[WriteJSON [''home'', ''my-plugin'', ''package.json''] (packageJson my_plugin),
       WriteJSON [''home'', ''my-plugin'', ''tsconfig.json''] tsConfig,
       WriteFile [''home'', ''my-plugin'', ''src'', ''types.ts''] (generatePluginTypes [] my_plugin),
       WriteFile [''home'', ''my-plugin'', ''src'', ''index.tsx''] (generatePluginSource my_plugin)]"
  let ?fails = "deny [''home'', ''my-plugin'', ''README.md'']"
  have n: "name my_plugin = ''my-plugin''" and t: "typescript my_plugin"
    by (simp_all add: my_plugin_def)
  have p: "plan [''home''] [] my_plugin = ?pre @ ?op # ?post"
    by (simp add: plan_def path_join_def n t)
  have ok: "\<forall>p\<in>set ?pre. ?fails p = None"
    by (simp add: deny_def)
  have bad: "?fails ?op = Some ''EACCES''"
    by (simp add: deny_def)
  have g: "take 2 (generated [''home''] [] my_plugin) =
     [([''plugin.json''], Json (manifest my_plugin)), ([''scripts'', ''pack.js''], Text packJs)]"
    by (simp add: generated_eq)
  from createPluginFiles_fail_fast [OF p ok bad, of "[]"] g show ?thesis
    by simp
qed

section \<open>The type-definitions file\<close>

lemma pluginContractTypes_nonempty: "pluginContractTypes \<noteq> []"
  by (simp add: pluginContractTypes_def)

text \<open>
  C9. Any two answer records that choose TypeScript get the same \<open>src/types.ts\<close>: its content
  is the shared type definitions followed by the contract types, whatever the name, type,
  slots and middleware points (and the working directory).
\<close>

theorem types_file_independent_of_answers:
  assumes "typescript a" and "typescript b"
  shows "map_of (generated cwd T a) [''src'', ''types.ts''] =
           map_of (generated cwd' T b) [''src'', ''types.ts''] \<and>
         map_of (generated cwd T a) [''src'', ''types.ts''] =
           Some (Text (T @ pluginContractTypes))"
  using assms by (simp add: generated_eq generatePluginTypes_def)

theorem types_file_independent_of_answers_witness:
  "typescript my_plugin \<and> typescript (my_mw\<lparr>typescript := True\<rparr>) \<and>
   map_of (generated [''home''] ''// shared'' my_plugin) [''src'', ''types.ts''] =
     map_of (generated [''tmp''] ''// shared'' (my_mw\<lparr>typescript := True\<rparr>)) [''src'', ''types.ts''] \<and>
   map_of (generated [''home''] ''// shared'' my_plugin) [''src'', ''types.ts''] =
     Some (Text (''// shared'' @ pluginContractTypes))"
proof -
  have a: "typescript my_plugin" by (simp add: my_plugin_def)
  have b: "typescript (my_mw\<lparr>typescript := True\<rparr>)" by simp
  note th = types_file_independent_of_answers [OF a b, of "[''home'']" "''// shared''" "[''tmp'']"]
  from a b conjunct1 [OF th] conjunct2 [OF th] show ?thesis
    by (intro conjI) assumption+
qed

text \<open>
  C10. \<open>generatePluginTypes\<close> has a branch that returns the shared definitions alone, but
  \<open>createPluginFiles\<close> calls it only when TypeScript was chosen: \<open>src/types.ts\<close> is
  generated exactly then, its content is always the shared definitions followed by the
  contract types, and never the shared definitions alone.
\<close>

theorem types_file_only_when_typed:
  "(([''src'', ''types.ts''], c) \<in> set (generated cwd T a)) =
     (typescript a \<and> c = Text (T @ pluginContractTypes)) \<and>
   ([''src'', ''types.ts''], Text T) \<notin> set (generated cwd T a) \<and>
   generatePluginTypes T a = (if typescript a then T @ pluginContractTypes else T)"
  using pluginContractTypes_nonempty
  by (auto simp add: generated_eq generatePluginTypes_def)

end
